theory Spec2Isabelle
  imports Complex_Main
begin

section \<open>Atmospheric interpolation: errors\<close>

text \<open>
  The exceptions of the Python program that the model distinguishes.  A computation
  that may raise returns a value of a sum type, \<open>Inl\<close> of the exception or \<open>Inr\<close> of the
  result.
\<close>

datatype error = NameError | TypeError | IndexError | ValueError | LinAlgError

section \<open>ChunkScheduler: worker count and row ranges\<close>

text \<open>
  Lines 241-250 of \<^verbatim>\<open>atm_interpolation\<close>.  The dictionary is bound to the name
  \<^verbatim>\<open>rayargs\<close>; the branch for an explicit core count stores into the
  unbound name \<^verbatim>\<open>ray_argw\<close>, which Python answers with NameError.  The number of
  CPUs that the cluster reports afterwards is outside the repository and is a parameter
  \<open>machine_cpus\<close>.
\<close>

definition init_ray :: "int \<Rightarrow> nat \<Rightarrow> error + nat" where
  "init_ray n_cores machine_cpus =
     (if n_cores \<noteq> - 1 then Inl NameError else Inr machine_cpus)"

definition n_workers :: "int \<Rightarrow> nat \<Rightarrow> nat \<Rightarrow> error + nat" where
  "n_workers n_cores machine_cpus n_input_lines =
     (case init_ray n_cores machine_cpus of
        Inl e \<Rightarrow> Inl e
      | Inr n_ray_cores \<Rightarrow> Inr (min n_ray_cores n_input_lines))"

text \<open>
  \<^verbatim>\<open>np.linspace(0, stop, num=num, dtype=int)\<close>: \<open>num\<close> samples
  \<open>i * (stop / (num - 1))\<close>, the last one set to \<open>stop\<close> itself, each floored to an
  integer.  With \<open>num = 1\<close> the only sample is the start, 0.  The arithmetic is exact
  (real numbers) here.
\<close>

definition linspace_int :: "nat \<Rightarrow> nat \<Rightarrow> nat list" where
  "linspace_int stop num =
     (let dv = num - 1 in
      map (\<lambda>i. if dv = 0 then 0
               else if i = dv then stop
               else nat \<lfloor>real i * (real stop / real dv)\<rfloor>) [0..<num])"

definition line_sections :: "nat \<Rightarrow> nat \<Rightarrow> nat list" where
  "line_sections n_input_lines n_cores = linspace_int n_input_lines (n_cores + 1)"

text \<open>
  The dispatch loop (lines 260-266): one task per index \<open>l\<close> of
  \<^verbatim>\<open>range(len(line_sections) - 1)\<close>, with the row range
  \<open>(line_sections[l], line_sections[l + 1])\<close>.
\<close>

definition dispatch_ranges :: "nat \<Rightarrow> nat \<Rightarrow> (nat \<times> nat) list" where
  "dispatch_ranges n_input_lines n_cores =
     (let ls = line_sections n_input_lines n_cores in
      map (\<lambda>l. (ls ! l, ls ! (l + 1))) [0..<length ls - 1])"


section \<open>Arrays\<close>

text \<open>
  Sequencing of computations that may raise: the first exception ends the computation.
\<close>

definition bind_err :: "error + 'a \<Rightarrow> ('a \<Rightarrow> error + 'b) \<Rightarrow> error + 'b" where
  "bind_err m f = (case m of Inl e \<Rightarrow> Inl e | Inr v \<Rightarrow> f v)"

text \<open>
  A two-dimensional numpy array carries its shape: an array of shape \<open>(0, 3)\<close> and one of
  shape \<open>(0, 0)\<close> differ, which a bare list of rows cannot tell apart.  Entries are real
  numbers: the arithmetic of the model is exact.
\<close>

type_synonym vec = "real list"

datatype mat = Mat (nrows: nat) (ncols: nat) (rows: "vec list")

definition wf_mat :: "mat \<Rightarrow> bool" where
  "wf_mat M = (length (rows M) = nrows M \<and> list_all (\<lambda>r. length r = ncols M) (rows M))"

definition np_zeros :: "nat \<Rightarrow> nat \<Rightarrow> mat" where
  "np_zeros r c = Mat r c (replicate r (replicate c 0))"

definition np_ones :: "nat \<Rightarrow> nat \<Rightarrow> mat" where
  "np_ones r c = Mat r c (replicate r (replicate c 1))"

text \<open>\<^verbatim>\<open>np.diag(v)\<close> of a one-dimensional \<open>v\<close>.\<close>

definition np_diag :: "vec \<Rightarrow> mat" where
  "np_diag v = (let n = length v in
     Mat n n (map (\<lambda>i. map (\<lambda>j. if i = j then v ! i else 0) [0..<n]) [0..<n]))"

text \<open>\<^verbatim>\<open>M.T\<close>.\<close>

definition transpose_mat :: "mat \<Rightarrow> mat" where
  "transpose_mat M = Mat (ncols M) (nrows M)
     (map (\<lambda>j. map (\<lambda>r. r ! j) (rows M)) [0..<ncols M])"

text \<open>\<^verbatim>\<open>A @ B\<close>: ValueError unless the inner dimensions agree.\<close>

definition matmul :: "mat \<Rightarrow> mat \<Rightarrow> error + mat" where
  "matmul A B =
     (if ncols A \<noteq> nrows B then Inl ValueError
      else Inr (Mat (nrows A) (ncols B)
        (map (\<lambda>ra. map (\<lambda>j. (\<Sum>k\<leftarrow>[0..<ncols A]. ra ! k * (rows B ! k) ! j)) [0..<ncols B])
           (rows A))))"

text \<open>\<^verbatim>\<open>np.concatenate((A, B), axis=1)\<close>: ValueError unless the row counts agree.\<close>

definition concatenate_axis1 :: "mat \<Rightarrow> mat \<Rightarrow> error + mat" where
  "concatenate_axis1 A B =
     (if nrows A \<noteq> nrows B then Inl ValueError
      else Inr (Mat (nrows A) (ncols A + ncols B) (map2 (@) (rows A) (rows B))))"

text \<open>
  \<^verbatim>\<open>M[use, :-1]\<close> and \<^verbatim>\<open>M[use, i:i + 1]\<close> for a boolean mask \<open>use\<close>: the rows
  where the mask holds; IndexError unless the mask is as long as the array.
\<close>

definition select_rows :: "bool list \<Rightarrow> vec list \<Rightarrow> vec list" where
  "select_rows use rs = map snd (filter fst (zip use rs))"

definition mask_drop_last :: "bool list \<Rightarrow> mat \<Rightarrow> error + mat" where
  "mask_drop_last use M =
     (if length use \<noteq> nrows M then Inl IndexError
      else Inr (Mat (length (filter id use)) (ncols M - 1)
                 (map butlast (select_rows use (rows M)))))"

definition mask_column :: "bool list \<Rightarrow> mat \<Rightarrow> nat \<Rightarrow> error + mat" where
  "mask_column use M i =
     (if length use \<noteq> nrows M then Inl IndexError
      else Inr (Mat (length (filter id use)) (min (ncols M) (i + 1) - min (ncols M) i)
                 (map (\<lambda>r. take 1 (drop i r)) (select_rows use (rows M)))))"

subsection \<open>The inverse\<close>

text \<open>
  \<^verbatim>\<open>scipy.linalg.inv\<close> is library code.  The fit takes it as a parameter
  \<open>linalg_inv\<close> of type \<open>mat \<Rightarrow> error + mat\<close>, so that what is proved for every \<open>linalg_inv\<close>
  holds whatever the library computes and whenever it raises.

  Modelled from the library's documentation (the function is not part of this
  repository): \<open>inv_exact\<close> is the inverse in exact arithmetic.  It raises ValueError for
  a matrix that is not square, LinAlgError for a singular one, and otherwise returns the
  adjugate divided by the determinant.
\<close>

definition del_at :: "nat \<Rightarrow> 'a list \<Rightarrow> 'a list" where
  "del_at j xs = take j xs @ drop (Suc j) xs"

fun det :: "vec list \<Rightarrow> real" where
  "det [] = 1"
| "det (r # rs) = (\<Sum>j\<leftarrow>[0..<length r]. (- 1) ^ j * r ! j * det (map (del_at j) rs))"

definition inv_exact :: "mat \<Rightarrow> error + mat" where
  "inv_exact A =
     (if nrows A \<noteq> ncols A then Inl ValueError
      else if det (rows A) = 0 then Inl LinAlgError
      else Inr (Mat (nrows A) (nrows A)
        (map (\<lambda>i. map (\<lambda>j. (- 1) ^ (i + j) * det (map (del_at i) (del_at j (rows A)))
                              / det (rows A)) [0..<nrows A]) [0..<nrows A])))"

text \<open>
  What the fit may expect of any inverse: a result, when there is one, is an array, with
  as many rows as its shape says and every row as long as its shape says.
\<close>

definition returns_arrays :: "(mat \<Rightarrow> error + mat) \<Rightarrow> bool" where
  "returns_arrays f = (\<forall>M N. f M = Inr N \<longrightarrow> wf_mat N)"

section \<open>RegressionCache: the local least-squares fit\<close>

text \<open>
  Lines 145-155, one pass of the loop over the atmospheric bands.  \<open>xv\<close> holds the scaled
  locations of the neighbours, \<open>yv\<close> their state vectors.  Lines 146-151 stand outside
  the \<^verbatim>\<open>try\<close>: an exception there leaves the fit (\<^verbatim>\<open>yv[:, i]\<close> raises
  IndexError for a band that \<open>yv\<close> does not have).  Line 153 is the body of the
  \<^verbatim>\<open>try\<close>; the bare \<^verbatim>\<open>except\<close> answers every exception from it by
  setting the band's row to zero.
\<close>

definition band_use :: "mat \<Rightarrow> nat \<Rightarrow> error + bool list" where
  "band_use yv i =
     (if i < ncols yv then Inr (map (\<lambda>r. r ! i > - 5) (rows yv)) else Inl IndexError)"

definition band_X :: "mat \<Rightarrow> bool list \<Rightarrow> error + mat" where
  "band_X xv use =
     (let n = length (filter id use) in
      bind_err (mask_drop_last use xv) (\<lambda>sel. concatenate_axis1 (np_ones n 1) sel))"

definition band_W :: "bool list \<Rightarrow> mat" where
  "band_W use = np_diag (replicate (length (filter id use)) 1)"

definition band_y :: "mat \<Rightarrow> bool list \<Rightarrow> nat \<Rightarrow> error + mat" where
  "band_y yv use i = mask_column use yv i"

text \<open>\<^verbatim>\<open>inv(X.T @ W @ X)\<close>'s argument.\<close>

definition normal_matrix :: "mat \<Rightarrow> mat \<Rightarrow> error + mat" where
  "normal_matrix X W = bind_err (matmul (transpose_mat X) W) (\<lambda>XtW. matmul XtW X)"

text \<open>\<^verbatim>\<open>(inv(X.T @ W @ X) @ X.T @ W @ y).T\<close>, evaluated left to right.\<close>

definition solve_band :: "(mat \<Rightarrow> error + mat) \<Rightarrow> mat \<Rightarrow> mat \<Rightarrow> mat \<Rightarrow> error + mat" where
  "solve_band linalg_inv X W y =
     bind_err (normal_matrix X W) (\<lambda>N.
     bind_err (linalg_inv N) (\<lambda>Ni.
     bind_err (matmul Ni (transpose_mat X)) (\<lambda>t1.
     bind_err (matmul t1 W) (\<lambda>t2.
     bind_err (matmul t2 y) (\<lambda>b. Inr (transpose_mat b))))))"

text \<open>
  \<^verbatim>\<open>bhat[i, :] = v\<close> for a two-dimensional \<open>v\<close> and a row of \<open>c\<close> entries: numpy
  drops leading dimensions of size one and broadcasts a single value; anything else is a
  ValueError.
\<close>

definition assign_row :: "nat \<Rightarrow> mat \<Rightarrow> error + vec" where
  "assign_row c v =
     (if nrows v = 1 \<and> ncols v = c then Inr (hd (rows v))
      else if nrows v = 1 \<and> ncols v = 1 then Inr (replicate c (hd (hd (rows v))))
      else Inl ValueError)"

text \<open>Line 153 as a whole, the body of the \<^verbatim>\<open>try\<close>, for a row of \<open>c\<close> entries.\<close>

definition band_try :: "(mat \<Rightarrow> error + mat) \<Rightarrow> nat \<Rightarrow> mat \<Rightarrow> mat \<Rightarrow> mat \<Rightarrow> error + vec" where
  "band_try linalg_inv c X W y = bind_err (solve_band linalg_inv X W y) (assign_row c)"

definition fit_band :: "(mat \<Rightarrow> error + mat) \<Rightarrow> mat \<Rightarrow> mat \<Rightarrow> nat \<Rightarrow> error + vec" where
  "fit_band linalg_inv xv yv i =
     bind_err (band_use yv i) (\<lambda>use.
     bind_err (band_X xv use) (\<lambda>X.
     let W = band_W use in
     bind_err (band_y yv use i) (\<lambda>y.
       case band_try linalg_inv (ncols xv) X W y of
         Inr row \<Rightarrow> Inr row
       | Inl e \<Rightarrow> Inr (replicate (ncols xv) 0))))"

text \<open>
  The loop \<^verbatim>\<open>for i in np.arange(n_atm_bands)\<close> over \<open>bhat\<close>, which starts as
  \<^verbatim>\<open>np.zeros((n_atm_bands, xv.shape[1]))\<close> (line 143).
\<close>

fun fit_loop :: "(mat \<Rightarrow> error + mat) \<Rightarrow> mat \<Rightarrow> mat \<Rightarrow> nat list \<Rightarrow> vec list \<Rightarrow> error + vec list" where
  "fit_loop linalg_inv xv yv [] bhat = Inr bhat"
| "fit_loop linalg_inv xv yv (i # is) bhat =
     bind_err (fit_band linalg_inv xv yv i) (\<lambda>row. fit_loop linalg_inv xv yv is (bhat[i := row]))"

definition fit_bhat :: "(mat \<Rightarrow> error + mat) \<Rightarrow> mat \<Rightarrow> mat \<Rightarrow> nat \<Rightarrow> error + mat" where
  "fit_bhat linalg_inv xv yv n_atm_bands =
     bind_err (fit_loop linalg_inv xv yv [0..<n_atm_bands] (rows (np_zeros n_atm_bands (ncols xv))))
       (\<lambda>rs. Inr (Mat n_atm_bands (ncols xv) rs))"

section \<open>Smoother\<close>

text \<open>
  Lines 278-290.  The raster read back from the output file holds finite numbers; the
  quotient of two arrays may hold the special values of floating-point division, which
  numpy returns (with a warning) where the divisor is zero.
\<close>

datatype fl = Fin real | PInf | NInf | NaN

definition np_divide :: "real \<Rightarrow> real \<Rightarrow> fl" where
  "np_divide a b =
     (if b \<noteq> 0 then Fin (a / b)
      else if a = 0 then NaN
      else if 0 < a then PInf
      else NInf)"

definition map_rows :: "(vec \<Rightarrow> vec) \<Rightarrow> mat \<Rightarrow> mat" where
  "map_rows f M = Mat (nrows M) (ncols M) (map f (rows M))"

text \<open>
  Modelled from the library's documentation (\<^verbatim>\<open>scipy.ndimage.gaussian_filter\<close> is not
  part of this repository), with its defaults: a kernel of radius
  \<open>int(4 * sigma + 0.5)\<close> with weights proportional to \<open>exp(- x\<^sup>2 / (2 * sigma\<^sup>2))\<close> and
  summing to one, correlated with the array along axis 0 and then along axis 1, the
  array being extended by reflection at its borders.
\<close>

definition gaussian_kernel1d :: "real \<Rightarrow> vec" where
  "gaussian_kernel1d sigma =
     (let radius = nat \<lfloor>4 * sigma + 1 / 2\<rfloor>;
          phi = map (\<lambda>k. exp (- (1 / 2) / (sigma * sigma) * (real k - real radius) ^ 2))
                  [0..<2 * radius + 1]
      in map (\<lambda>p. p / sum_list phi) phi)"

definition reflect_index :: "nat \<Rightarrow> int \<Rightarrow> nat" where
  "reflect_index n i =
     (let m = i mod (2 * int n) in if m < int n then nat m else nat (2 * int n - 1 - m))"

definition correlate1d :: "vec \<Rightarrow> vec \<Rightarrow> vec" where
  "correlate1d w xs =
     (let n = length xs; r = length w div 2 in
      map (\<lambda>i. (\<Sum>k\<leftarrow>[0..<length w]. w ! k * xs ! reflect_index n (int i + int k - int r)))
        [0..<n])"

definition gaussian_filter :: "real \<Rightarrow> mat \<Rightarrow> mat" where
  "gaussian_filter sigma M =
     (let w = gaussian_kernel1d sigma;
          a0 = transpose_mat (map_rows (correlate1d w) (transpose_mat M))
      in map_rows (correlate1d w) a0)"

text \<open>
  One band \<^verbatim>\<open>atm_img[..., n]\<close>.  \<open>nodata_value\<close> is the parameter of
  \<^verbatim>\<open>atm_interpolation\<close>, in scope in the loop; line 280 compares with the literal
  \<open>-9999\<close>.  \<^verbatim>\<open>V\<close> is a view of the band, so line 282 zeroes the band itself, and
  line 285 computes \<^verbatim>\<open>W\<close> from the zeroed band.
\<close>

definition null_mask :: "real \<Rightarrow> mat \<Rightarrow> bool list list" where
  "null_mask nodata_value band = map (map (\<lambda>v. v = - 9999)) (rows band)"

definition zeroed_values :: "real \<Rightarrow> mat \<Rightarrow> mat" where
  "zeroed_values nodata_value band =
     Mat (nrows band) (ncols band)
       (map2 (map2 (\<lambda>isnull v. if isnull then 0 else v))
          (null_mask nodata_value band) (rows band))"

definition validity_mask :: "real \<Rightarrow> mat \<Rightarrow> mat" where
  "validity_mask nodata_value band =
     (let V = zeroed_values nodata_value band;
          W = map (map (\<lambda>v. 0 * v + 1)) (rows V)
      in Mat (nrows band) (ncols band)
           (map2 (map2 (\<lambda>isnull w. if isnull then 0 else w)) (null_mask nodata_value band) W))"

definition smooth_band :: "real \<Rightarrow> real \<Rightarrow> mat \<Rightarrow> fl list list" where
  "smooth_band nodata_value gaussian_smoothing_sigma band =
     (let VV = gaussian_filter gaussian_smoothing_sigma (zeroed_values nodata_value band);
          WW = gaussian_filter gaussian_smoothing_sigma (validity_mask nodata_value band)
      in map2 (map2 np_divide) (rows VV) (rows WW))"

text \<open>Lines 278-290 over all bands; nothing is done for a width that is not positive.\<close>

definition smoother :: "real \<Rightarrow> real \<Rightarrow> mat list \<Rightarrow> fl list list list" where
  "smoother nodata_value gaussian_smoothing_sigma bands =
     (if gaussian_smoothing_sigma > 0
      then map (smooth_band nodata_value gaussian_smoothing_sigma) bands
      else map (\<lambda>band. map (map Fin) (rows band)) bands)"

section \<open>ChunkWorker\<close>

text \<open>
  What \<^verbatim>\<open>_run_chunk\<close> holds after loading (lines 72-105): the reference
  locations, of shape \<open>(n_reference_lines, n_location_bands)\<close>; the reference state
  restricted to the atmospheric bands, of shape \<open>(n_reference_lines, n_atm_bands)\<close>; the
  target locations, one vector per line and sample; the segmentation band, or
  \<^verbatim>\<open>None\<close> when no segmentation file is given (lines 96-100); and the settings.
  The nearest-neighbour query of the KDTree and the matrix inverse are library code and
  are fields of the environment.
\<close>

text \<open>
  \<^verbatim>\<open>tree.query(x, k)\<close> answers \<open>k = 1\<close> with a single index and any other \<open>k\<close>
  with an array of \<open>k\<close> indices.
\<close>

datatype neighbours = One nat | Many "nat list"

record env =
  reference_locations :: mat
  reference_state :: mat
  input_locations :: "vec list list"
  segmentation_img :: "int list list option"
  nneighbors :: nat
  nodata_value :: real
  kdtree_query :: "vec \<Rightarrow> nat \<Rightarrow> error + neighbours"
  scipy_inv :: "mat \<Rightarrow> error + mat"

definition n_atm_bands :: "env \<Rightarrow> nat" where
  "n_atm_bands e = ncols (reference_state e)"

text \<open>
  The per-worker cache \<^verbatim>\<open>hash_table\<close> (line 112).  The two counters are
  instrumentation: they count the calls of \<^verbatim>\<open>tree.query\<close> and the fits that the
  worker has made, and no computation reads them.
\<close>

record worker_state =
  hash_table :: "int \<rightharpoonup> mat"
  n_queries :: nat
  n_fits :: nat

definition loc_scaling :: vec where
  "loc_scaling = [1000000, 1000000, 1 / 100]"

text \<open>
  \<^verbatim>\<open>np.isclose(a, b)\<close> with the default tolerances:
  \<open>|a - b| \<le> atol + rtol * |b|\<close>, \<open>atol = 1e-8\<close>, \<open>rtol = 1e-5\<close>.
\<close>

definition isclose :: "real \<Rightarrow> real \<Rightarrow> bool" where
  "isclose a b = (\<bar>a - b\<bar> \<le> 1 / 10 ^ 8 + 1 / 10 ^ 5 * \<bar>b\<bar>)"

text \<open>Line 127: \<^verbatim>\<open>np.all(np.isclose(x, nodata_value))\<close>.\<close>

definition is_nodata :: "env \<Rightarrow> vec \<Rightarrow> bool" where
  "is_nodata e x = list_all (\<lambda>a. isclose a (nodata_value e)) x"

text \<open>
  Line 131: \<^verbatim>\<open>x *= loc_scaling\<close>.  The product is stored in \<open>x\<close>, so \<open>x\<close> must
  have the three entries of \<open>loc_scaling\<close>; numpy raises ValueError otherwise.
\<close>

definition scale_inplace :: "vec \<Rightarrow> error + vec" where
  "scale_inplace x =
     (if length x = 3 then Inr (map2 (*) x loc_scaling) else Inl ValueError)"

text \<open>
  \<^verbatim>\<open>M[nn, :]\<close> for an index array \<open>nn\<close>: IndexError when an index is out of range
  (the KDTree answers a query for more neighbours than it has points with the index
  \<open>n\<close>, one past the last point).
\<close>

definition gather_rows :: "mat \<Rightarrow> nat list \<Rightarrow> error + mat" where
  "gather_rows M nn =
     (if list_all (\<lambda>i. i < nrows M) nn
      then Inr (Mat (length nn) (ncols M) (map (\<lambda>i. rows M ! i) nn))
      else Inl IndexError)"

text \<open>
  Line 140: \<^verbatim>\<open>... * loc_scaling[np.newaxis, :]\<close>.  Three columns are scaled one by
  one; a single column is broadcast over the three factors; any other width is a
  ValueError.
\<close>

definition scale_rows :: "mat \<Rightarrow> error + mat" where
  "scale_rows M =
     (if ncols M = 3 then Inr (Mat (nrows M) 3 (map (\<lambda>r. map2 (*) r loc_scaling) (rows M)))
      else if ncols M = 1
        then Inr (Mat (nrows M) 3 (map (\<lambda>r. map (\<lambda>s. hd r * s) loc_scaling) (rows M)))
      else Inl ValueError)"

text \<open>
  Lines 140-141: \<^verbatim>\<open>xv\<close>, the scaled locations of the neighbours, and
  \<^verbatim>\<open>yv\<close>, their state vectors.
\<close>

definition neighbour_locations :: "env \<Rightarrow> nat list \<Rightarrow> error + mat" where
  "neighbour_locations e ns = bind_err (gather_rows (reference_locations e) ns) scale_rows"

definition neighbour_states :: "env \<Rightarrow> nat list \<Rightarrow> error + mat" where
  "neighbour_states e ns = gather_rows (reference_state e) ns"

text \<open>
  Lines 139-155: the fit of a fresh model at the scaled location \<open>x\<close>.  For a single
  neighbour \<^verbatim>\<open>yv\<close> is one-dimensional, and \<^verbatim>\<open>yv[:, i]\<close> (line 146) raises
  IndexError in the first pass of the loop over the bands.
\<close>

definition fit_pixel :: "env \<Rightarrow> vec \<Rightarrow> error + mat" where
  "fit_pixel e x =
     bind_err (kdtree_query e x (nneighbors e)) (\<lambda>nn.
       case nn of
         Many ns \<Rightarrow>
           bind_err (neighbour_locations e ns) (\<lambda>xv.
           bind_err (neighbour_states e ns) (\<lambda>yv.
             fit_bhat (scipy_inv e) xv yv (n_atm_bands e)))
       | One i \<Rightarrow>
           bind_err (neighbour_locations e [i]) (\<lambda>xv.
           bind_err (neighbour_states e [i]) (\<lambda>yv.
             if n_atm_bands e = 0 then Inr (np_zeros 0 (ncols xv)) else Inl IndexError)))"

text \<open>
  Line 134: \<^verbatim>\<open>segmentation_img[row, col]\<close>.  Subscripting \<^verbatim>\<open>None\<close> is a
  TypeError; an index outside the band is an IndexError.
\<close>

definition seg_lookup :: "int list list option \<Rightarrow> nat \<Rightarrow> nat \<Rightarrow> error + int" where
  "seg_lookup seg row col =
     (case seg of
        None \<Rightarrow> Inl TypeError
      | Some g \<Rightarrow>
          if row < length g \<and> col < length (g ! row) then Inr (g ! row ! col)
          else Inl IndexError)"

text \<open>
  Lines 133-161: the model for the pixel.  A label found in \<^verbatim>\<open>hash_table\<close> gives
  the stored matrix (lines 135-136); otherwise the model is fitted (lines 138-155).
  Line 160 stores the model when a segmentation is present and the label is not a key
  yet.
\<close>

definition get_bhat :: "env \<Rightarrow> worker_state \<Rightarrow> nat \<Rightarrow> nat \<Rightarrow> vec \<Rightarrow> error + mat \<times> worker_state" where
  "get_bhat e st row col x =
     bind_err (seg_lookup (segmentation_img e) row col) (\<lambda>hash_idx.
     bind_err
       (case hash_table st hash_idx of
          Some b \<Rightarrow> Inr (b, st)
        | None \<Rightarrow>
            bind_err (fit_pixel e x) (\<lambda>b.
              Inr (b, st\<lparr>n_queries := n_queries st + 1, n_fits := n_fits st + 1\<rparr>)))
       (\<lambda>(bhat, st1).
          Inr (bhat,
            if segmentation_img e \<noteq> None \<and> hash_table st1 hash_idx = None
            then st1\<lparr>hash_table := (hash_table st1)(hash_idx \<mapsto> bhat)\<rparr>
            else st1)))"

text \<open>
  Lines 163-164: \<^verbatim>\<open>A = np.hstack((np.ones(1), x[:-1]))\<close> and
  \<^verbatim>\<open>(bhat.T * A[:, np.newaxis]).sum(axis=0)\<close>.  The product broadcasts when
  \<open>bhat\<close> has one column or \<open>A\<close> one entry, and is a ValueError when the sizes differ
  otherwise.
\<close>

definition predict :: "mat \<Rightarrow> vec \<Rightarrow> error + vec" where
  "predict bhat x =
     (let A = 1 # butlast x in
      if ncols bhat = length A
        then Inr (map (\<lambda>r. (\<Sum>j\<leftarrow>[0..<length A]. r ! j * A ! j)) (rows bhat))
      else if ncols bhat = 1
        then Inr (map (\<lambda>r. (\<Sum>j\<leftarrow>[0..<length A]. r ! 0 * A ! j)) (rows bhat))
      else if length A = 1
        then Inr (map (\<lambda>r. (\<Sum>j\<leftarrow>[0..<ncols bhat]. r ! j * A ! 0)) (rows bhat))
      else Inl ValueError)"

text \<open>\<^verbatim>\<open>output_atm_row[col, :] = v\<close> for a row of \<open>n\<close> entries.\<close>

definition assign_vec :: "nat \<Rightarrow> vec \<Rightarrow> error + vec" where
  "assign_vec n v =
     (if length v = n then Inr v
      else if length v = 1 then Inr (replicate n (hd v))
      else Inl ValueError)"

text \<open>Lines 126-166: the body of the loop over the columns.\<close>

definition process_pixel ::
  "env \<Rightarrow> worker_state \<Rightarrow> vec list \<Rightarrow> nat \<Rightarrow> nat \<Rightarrow> vec list \<Rightarrow> error + worker_state \<times> vec list" where
  "process_pixel e st input_locations_row row col output_atm_row =
     (let x = input_locations_row ! col in
      if is_nodata e x
      then Inr (st, output_atm_row[col := replicate (n_atm_bands e) (nodata_value e)])
      else
        bind_err (scale_inplace x) (\<lambda>xs.
        bind_err (get_bhat e st row col xs) (\<lambda>(bhat, st1).
        bind_err (predict bhat xs) (\<lambda>v.
        bind_err (assign_vec (n_atm_bands e) v) (\<lambda>w.
          Inr (st1, output_atm_row[col := w]))))))"

text \<open>
  The loop over the columns (line 124), \<open>col\<close> running over
  \<^verbatim>\<open>np.arange(n_input_samples)\<close>, where \<open>n_input_samples\<close> is the width of the
  location image, hence the length of every row of it.
\<close>

fun process_cols ::
  "env \<Rightarrow> worker_state \<Rightarrow> vec list \<Rightarrow> nat \<Rightarrow> nat list \<Rightarrow> vec list \<Rightarrow> error + worker_state \<times> vec list" where
  "process_cols e st locs row [] out = Inr (st, out)"
| "process_cols e st locs row (col # cols) out =
     bind_err (process_pixel e st locs row col out) (\<lambda>(st1, out1).
       process_cols e st1 locs row cols out1)"

text \<open>
  Lines 116-178 for one row: read the row of locations (IndexError past the last line),
  start from a row of nodata (line 121), visit the columns, and hand the transposed row
  (bands by samples) to \<^verbatim>\<open>write_bil_chunk\<close>.
\<close>

definition process_row :: "env \<Rightarrow> worker_state \<Rightarrow> nat \<Rightarrow> error + worker_state \<times> mat" where
  "process_row e st row =
     (if row < length (input_locations e) then
        (let locs = input_locations e ! row;
             n_input_samples = length locs;
             out0 = replicate n_input_samples (replicate (n_atm_bands e) (nodata_value e))
         in bind_err (process_cols e st locs row [0..<n_input_samples] out0) (\<lambda>(st1, out).
              Inr (st1, transpose_mat (Mat n_input_samples (n_atm_bands e) out))))
      else Inl IndexError)"

text \<open>
  The loop over the rows (line 114).  The written rows are kept as a map from the line
  number to the block written for it.  An exception ends the task; the model then
  returns the exception only.
\<close>

fun run_rows ::
  "env \<Rightarrow> worker_state \<Rightarrow> nat list \<Rightarrow> (nat \<rightharpoonup> mat) \<Rightarrow> error + worker_state \<times> (nat \<rightharpoonup> mat)" where
  "run_rows e st [] file = Inr (st, file)"
| "run_rows e st (row # rws) file =
     bind_err (process_row e st row) (\<lambda>(st1, block).
       run_rows e st1 rws (file(row \<mapsto> block)))"

text \<open>
  The states of one worker: \<open>reaches e st st2\<close> holds when the worker gets from the state
  \<open>st\<close> to the state \<open>st2\<close> by processing pixels, any number of them.  The loops over
  the columns and the rows only move along this relation (\<open>process_cols_reaches\<close>,
  \<open>run_rows_reaches\<close>).
\<close>

inductive reaches :: "env \<Rightarrow> worker_state \<Rightarrow> worker_state \<Rightarrow> bool" for e where
  reaches_refl: "reaches e st st"
| reaches_step: "reaches e st st1 \<Longrightarrow> process_pixel e st1 locs row col out = Inr (st2, out2)
     \<Longrightarrow> reaches e st st2"

definition empty_state :: worker_state where
  "empty_state = \<lparr>hash_table = Map.empty, n_queries = 0, n_fits = 0\<rparr>"

definition run_chunk :: "env \<Rightarrow> nat \<Rightarrow> nat \<Rightarrow> (nat \<rightharpoonup> mat) \<Rightarrow> error + worker_state \<times> (nat \<rightharpoonup> mat)" where
  "run_chunk e start_line stop_line file = run_rows e empty_state [start_line..<stop_line] file"

text \<open>
  Lines 260-268: one task per range, each with a cache of its own; \<^verbatim>\<open>ray.get\<close>
  raises when a task has raised.  The tasks write disjoint lines of the output, so the
  model runs them one after the other.
\<close>

fun run_tasks :: "env \<Rightarrow> (nat \<times> nat) list \<Rightarrow> (nat \<rightharpoonup> mat) \<Rightarrow> error + (nat \<rightharpoonup> mat)" where
  "run_tasks e [] file = Inr file"
| "run_tasks e (r # rs) file =
     bind_err (run_chunk e (fst r) (snd r) file) (\<lambda>(st, file1). run_tasks e rs file1)"

text \<open>Lines 239-268 of \<^verbatim>\<open>atm_interpolation\<close>: initialise, partition, dispatch, wait.\<close>

definition interpolate :: "env \<Rightarrow> int \<Rightarrow> nat \<Rightarrow> error + (nat \<rightharpoonup> mat)" where
  "interpolate e n_cores machine_cpus =
     (let n_input_lines = length (input_locations e) in
      bind_err (n_workers n_cores machine_cpus n_input_lines) (\<lambda>n.
        run_tasks e (dispatch_ranges n_input_lines n) Map.empty))"

text \<open>
  Modelled from the library's documentation (the KDTree is not part of this repository):
  the exact \<open>k\<close> nearest points by Euclidean distance, nearest first; missing neighbours
  are reported with the index \<open>n\<close>; a single index for \<open>k = 1\<close>.  The library
  documents \<open>k \<ge> 1\<close> only and leaves the order of equidistant points open: here
  \<open>k = 0\<close> is a ValueError and the point with the smaller index comes first.  The model
  serves as the query of the example inputs; the properties of the worker hold for every
  query function.
\<close>

definition sqdist :: "vec \<Rightarrow> vec \<Rightarrow> real" where
  "sqdist u v = (\<Sum>p\<leftarrow>zip u v. (fst p - snd p) ^ 2)"

definition knn_query :: "vec list \<Rightarrow> vec \<Rightarrow> nat \<Rightarrow> error + neighbours" where
  "knn_query pts x k =
     (let n = length pts;
          nn = take k (sort_key (\<lambda>i. sqdist (pts ! i) x) [0..<n]) @ replicate (k - n) n
      in if k = 0 then Inl ValueError
         else if k = 1 then Inr (One (hd nn))
         else Inr (Many nn))"

section \<open>Example inputs\<close>

text \<open>
  The environment as lines 72-105 build it, with the KDTree over the scaled reference
  locations (lines 103-105) and the exact inverse.
\<close>

definition make_env ::
  "mat \<Rightarrow> mat \<Rightarrow> vec list list \<Rightarrow> int list list option \<Rightarrow> nat \<Rightarrow> real \<Rightarrow> env" where
  "make_env ref_locs ref_state in_locs seg k nodata =
     \<lparr>reference_locations = ref_locs, reference_state = ref_state,
      input_locations = in_locs, segmentation_img = seg, nneighbors = k,
      nodata_value = nodata,
      kdtree_query = knn_query (map (\<lambda>r. map2 (*) r loc_scaling) (rows ref_locs)),
      scipy_inv = inv_exact\<rparr>"

text \<open>
  The end-to-end scenario of the specification: ten reference points with two
  atmospheric bands, a target grid of four lines and four samples none of whose
  locations is nodata, five neighbours, no segmentation file.
\<close>

definition scenario_ref_locs :: mat where
  "scenario_ref_locs = Mat 10 3
     [[0, 0, 10], [0, 1, 10], [1, 0, 10], [1, 1, 10], [2, 0, 20],
      [2, 1, 20], [0, 2, 20], [1, 2, 20], [2, 2, 30], [3, 3, 30]]"

definition scenario_ref_state :: mat where
  "scenario_ref_state = Mat 10 2
     [[1, 2], [2, 2], [3, 2], [4, 2], [5, 2],
      [6, 2], [3, 2], [5, 2], [7, 2], [10, 2]]"

definition scenario_locs :: "vec list list" where
  "scenario_locs =
     map (\<lambda>i. map (\<lambda>j. [real i / 2, real j / 2, 15]) [0..<4]) [0..<4]"

definition scenario_env :: env where
  "scenario_env =
     make_env scenario_ref_locs scenario_ref_state scenario_locs None 5 (- 9999)"

text \<open>
  A small segmented input: four reference points, one atmospheric band that is the plane
  \<open>1 + lat + 2 * lon\<close> in scaled coordinates, a target line of three samples of which the
  second is nodata and the other two share the label 7.
\<close>

definition seg_ref_locs :: mat where
  "seg_ref_locs = Mat 4 3
     [[0, 0, 100], [1 / 1000000, 0, 100], [0, 1 / 1000000, 100], [1 / 1000000, 1 / 1000000, 100]]"

definition seg_ref_state :: mat where
  "seg_ref_state = Mat 4 1 [[1], [2], [3], [4]]"

definition seg_locs :: "vec list list" where
  "seg_locs = [[[0, 0, 100], [- 9999, - 9999, - 9999], [1 / 1000000, 1 / 1000000, 100]]]"

definition seg_env :: env where
  "seg_env = make_env seg_ref_locs seg_ref_state seg_locs (Some [[7, 7, 7]]) 4 (- 9999)"





section \<open>Properties of the scheduler\<close>











text \<open>
  Claim C3 (the code at an explicit core count).  With \<^verbatim>\<open>n_cores = 4\<close> on a
  machine of 8 CPUs and an input of 10 lines, the initialisation raises NameError: no
  worker count is computed and nothing is dispatched.
\<close>

theorem n_workers_explicit_cores_NameError: "n_workers 4 8 10 = Inl NameError"
  by (simp add: n_workers_def init_ray_def)

lemma n_workers_default: "n_workers (- 1) machine_cpus n_input_lines = Inr (min machine_cpus n_input_lines)"
  by (simp add: n_workers_def init_ray_def)

section \<open>Properties of the worker: nodata pixels\<close>

lemma bind_err_Inr_iff:
  "bind_err m f = Inr r \<longleftrightarrow> (\<exists>v. m = Inr v \<and> f v = Inr r)"
  by (cases m) (simp_all add: bind_err_def)

lemma bind_err_Inl [simp]: "bind_err (Inl e) f = Inl e"
  by (simp add: bind_err_def)

lemma bind_err_Inr [simp]: "bind_err (Inr v) f = f v"
  by (simp add: bind_err_def)

lemma process_pixel_nodata:
  "is_nodata e (locs ! col) \<Longrightarrow>
   process_pixel e st locs row col out =
     Inr (st, out[col := replicate (n_atm_bands e) (nodata_value e)])"
  by (simp add: process_pixel_def)

lemma process_pixel_length:
  "process_pixel e st locs row col out = Inr (st1, out1) \<Longrightarrow> length out1 = length out"
  by (auto simp: process_pixel_def Let_def bind_err_Inr_iff split: if_splits prod.splits)

lemma process_pixel_other:
  "process_pixel e st locs row col out = Inr (st1, out1) \<Longrightarrow> c \<noteq> col \<Longrightarrow> out1 ! c = out ! c"
  by (auto simp: process_pixel_def Let_def bind_err_Inr_iff split: if_splits prod.splits)

lemma process_cols_length:
  "process_cols e st locs row cols out = Inr (st1, out1) \<Longrightarrow> length out1 = length out"
proof (induction cols arbitrary: st out)
  case Nil then show ?case by simp
next
  case (Cons c cols)
  then obtain st' out' where p: "process_pixel e st locs row c out = Inr (st', out')"
    and r: "process_cols e st' locs row cols out' = Inr (st1, out1)"
    by (auto simp: bind_err_Inr_iff)
  from Cons.IH [OF r] process_pixel_length [OF p] show ?case by simp
qed

text \<open>A nodata column holds the nodata vector throughout the loop over the columns.\<close>

lemma process_cols_nodata:
  assumes "process_cols e st locs row cols out = Inr (st1, out1)"
    and "is_nodata e (locs ! c)" and "c < length out"
    and "out ! c = replicate (n_atm_bands e) (nodata_value e)"
  shows "out1 ! c = replicate (n_atm_bands e) (nodata_value e)"
  using assms
proof (induction cols arbitrary: st out)
  case Nil then show ?case by simp
next
  case (Cons c' cols)
  then obtain st' out' where p: "process_pixel e st locs row c' out = Inr (st', out')"
    and r: "process_cols e st' locs row cols out' = Inr (st1, out1)"
    by (auto simp: bind_err_Inr_iff)
  have len: "c < length out'" using process_pixel_length [OF p] Cons.prems by simp
  have "out' ! c = replicate (n_atm_bands e) (nodata_value e)"
  proof (cases "c' = c")
    case True
    with p Cons.prems show ?thesis by (auto simp: process_pixel_nodata)
  next
    case False
    with process_pixel_other [OF p, of c] Cons.prems show ?thesis by simp
  qed
  with Cons.IH [OF r Cons.prems(2) len] show ?case by simp
qed

lemma process_row_nodata:
  assumes run: "process_row e st row = Inr (st1, block)"
    and col: "col < length (input_locations e ! row)"
    and nd: "is_nodata e (input_locations e ! row ! col)"
    and b: "b < n_atm_bands e"
  shows "rows block ! b ! col = nodata_value e"
proof -
  let ?locs = "input_locations e ! row"
  let ?out0 = "replicate (length ?locs) (replicate (n_atm_bands e) (nodata_value e))"
  from run obtain out where
    pc: "process_cols e st ?locs row [0..<length ?locs] ?out0 = Inr (st1, out)"
    and blk: "block = transpose_mat (Mat (length ?locs) (n_atm_bands e) out)"
    by (auto simp: process_row_def Let_def bind_err_Inr_iff split: if_splits)
  have len: "length out = length ?locs" using process_cols_length [OF pc] by simp
  have "out ! col = replicate (n_atm_bands e) (nodata_value e)"
    using process_cols_nodata [OF pc nd] col by simp
  with blk b col len show ?thesis by (simp add: transpose_mat_def)
qed

text \<open>
  Claim C9.  A target pixel whose location is close to the nodata value in every
  coordinate leaves the worker's state as it was (no query, no fit, no change of the
  cache: both counters keep their values) and puts the nodata value in every band of the
  pixel; and in the block that a completed row writes, the pixel holds the nodata value
  in every band.
\<close>

theorem nodata_pixel_emits_nodata:
  assumes "is_nodata e (locs ! col)" and "col < length out"
  shows "\<exists>out1. process_pixel e st locs row col out = Inr (st, out1)
           \<and> out1 ! col = replicate (n_atm_bands e) (nodata_value e)
           \<and> (\<forall>st1 block b. process_row e st row = Inr (st1, block)
                 \<and> locs = input_locations e ! row \<and> col < length locs \<and> b < n_atm_bands e
               \<longrightarrow> rows block ! b ! col = nodata_value e)"
  using assms process_pixel_nodata [of e locs col st row out] process_row_nodata
  by auto

theorem nodata_pixel_emits_nodata_witness:
  "is_nodata seg_env (seg_locs ! 0 ! 1) \<and> (1::nat) < length [[0], [0], [0::real]]
   \<and> process_pixel seg_env empty_state (seg_locs ! 0) 0 1 [[0], [0], [0]]
       = Inr (empty_state, [[0], [- 9999], [0]])"
  using nodata_pixel_emits_nodata [of seg_env "seg_locs ! 0" 1 "[[0], [0], [0]]" empty_state 0]
  by (auto simp: seg_env_def make_env_def seg_locs_def is_nodata_def isclose_def
        process_pixel_def n_atm_bands_def seg_ref_state_def)

section \<open>Runs without a segmentation file; the smoother's mask\<close>

lemma get_bhat_no_segmentation:
  "segmentation_img e = None \<Longrightarrow> get_bhat e st row col x = Inl TypeError"
  by (simp add: get_bhat_def seg_lookup_def)

lemma process_pixel_no_segmentation:
  assumes "segmentation_img e = None" "\<not> is_nodata e (locs ! col)" "length (locs ! col) = 3"
  shows "process_pixel e st locs row col out = Inl TypeError"
  using assms by (simp add: process_pixel_def scale_inplace_def get_bhat_no_segmentation)

lemma scenario_first_pixel:
  "process_pixel scenario_env st (scenario_locs ! 0) 0 0 out = Inl TypeError"
  by (rule process_pixel_no_segmentation)
     (simp_all add: scenario_env_def make_env_def scenario_locs_def is_nodata_def isclose_def
        upt_rec numeral_nat)

lemma scenario_ranges: "dispatch_ranges 4 4 = [(0, 1), (1, 2), (2, 3), (3, 4)]"
  by (simp add: dispatch_ranges_def line_sections_def linspace_int_def upt_rec numeral_nat)

text \<open>
  Claim C1 (the code on the end-to-end scenario).  Without a segmentation file the first
  target pixel that is not nodata subscripts \<^verbatim>\<open>None\<close> (line 134): the task raises
  TypeError, and so does the run.
\<close>

theorem scenario_no_segmentation_TypeError:
  "interpolate scenario_env (- 1) 8 = Inl TypeError"
proof -
  have len: "length (input_locations scenario_env) = 4"
    by (simp add: scenario_env_def make_env_def scenario_locs_def)
  have row0: "input_locations scenario_env ! 0 = scenario_locs ! 0"
    by (simp add: scenario_env_def make_env_def)
  have len0: "length (scenario_locs ! 0) = 4"
    by (simp add: scenario_locs_def upt_rec numeral_nat)
  have "process_row scenario_env empty_state 0 = Inl TypeError"
    using scenario_first_pixel
    by (simp add: process_row_def len row0 len0 upt_rec [of 0 4] del: upt.simps replicate.simps)
  then have "run_chunk scenario_env 0 1 Map.empty = Inl TypeError"
    by (simp add: run_chunk_def)
  then show ?thesis
    by (simp add: interpolate_def len n_workers_default scenario_ranges)
qed

text \<open>
  Claim C4 (the code at a configured nodata value of \<open>-1\<close>).  The pixel that holds the
  configured value keeps the weight 1 and its value: the mask is taken from the literal
  \<open>-9999\<close>.
\<close>

theorem smoother_ignores_configured_nodata:
  "validity_mask (- 1) (Mat 1 2 [[- 1, 5]]) = Mat 1 2 [[1, 1]]
   \<and> zeroed_values (- 1) (Mat 1 2 [[- 1, 5]]) = Mat 1 2 [[- 1, 5]]"
  by (simp add: validity_mask_def zeroed_values_def null_mask_def)

lemma smoother_default_nodata:
  "validity_mask (- 9999) (Mat 1 2 [[- 9999, 5]]) = Mat 1 2 [[0, 1]]
   \<and> zeroed_values (- 9999) (Mat 1 2 [[- 9999, 5]]) = Mat 1 2 [[0, 5]]"
  by (simp add: validity_mask_def zeroed_values_def null_mask_def)

section \<open>Properties of the cache\<close>

lemma reaches_trans: "reaches e st1 st2 \<Longrightarrow> reaches e st0 st1 \<Longrightarrow> reaches e st0 st2"
  by (induction rule: reaches.induct) (auto intro: reaches.intros)






lemma process_cols_reaches:
  "process_cols e st locs row cols out = Inr (st1, out1) \<Longrightarrow> reaches e st st1"
proof (induction cols arbitrary: st out)
  case Nil then show ?case by (simp add: reaches_refl)
next
  case (Cons c cols)
  then obtain st' out' where p: "process_pixel e st locs row c out = Inr (st', out')"
    and r: "process_cols e st' locs row cols out' = Inr (st1, out1)"
    by (auto simp: bind_err_Inr_iff)
  have "reaches e st st'" using reaches_step [OF reaches_refl p] .
  with Cons.IH [OF r] show ?case by (rule reaches_trans)
qed

lemma process_row_reaches:
  "process_row e st row = Inr (st1, block) \<Longrightarrow> reaches e st st1"
  by (auto simp: process_row_def Let_def bind_err_Inr_iff split: if_splits
      dest: process_cols_reaches)

lemma run_rows_reaches:
  "run_rows e st rws outf = Inr (st1, outf1) \<Longrightarrow> reaches e st st1"
proof (induction rws arbitrary: st outf)
  case Nil then show ?case by (simp add: reaches_refl)
next
  case (Cons r rws)
  then obtain st' blk where p: "process_row e st r = Inr (st', blk)"
    and q: "run_rows e st' rws (outf(r \<mapsto> blk)) = Inr (st1, outf1)"
    by (auto simp: bind_err_Inr_iff)
  from Cons.IH [OF q] process_row_reaches [OF p] show ?case by (rule reaches_trans)
qed


subsection \<open>The segmented example, evaluated\<close>

lemmas array_defs = np_zeros_def np_ones_def np_diag_def transpose_mat_def matmul_def
  concatenate_axis1_def select_rows_def mask_drop_last_def mask_column_def del_at_def
  inv_exact_def band_use_def band_X_def band_W_def band_y_def normal_matrix_def
  solve_band_def assign_row_def band_try_def fit_band_def fit_bhat_def

lemma seg_env_query: "kdtree_query seg_env [0, 0, 1] 4 = Inr (Many [0, 1, 2, 3])"
  by (simp add: seg_env_def make_env_def knn_query_def seg_ref_locs_def loc_scaling_def
      sqdist_def upt_rec numeral_nat Let_def)

lemma seg_env_fit: "fit_pixel seg_env [0, 0, 1] = Inr (Mat 1 3 [[1, 1, 2]])"
proof -
  have q: "kdtree_query seg_env [0, 0, 1] (nneighbors seg_env) = Inr (Many [0, 1, 2, 3])"
    using seg_env_query by (simp add: seg_env_def make_env_def)
  have xv: "neighbour_locations seg_env [0, 1, 2, 3]
      = Inr (Mat 4 3 [[0, 0, 1], [1, 0, 1], [0, 1, 1], [1, 1, 1]])"
    by (simp add: neighbour_locations_def seg_env_def make_env_def seg_ref_locs_def
        gather_rows_def scale_rows_def loc_scaling_def)
  have yv: "neighbour_states seg_env [0, 1, 2, 3] = Inr (Mat 4 1 [[1], [2], [3], [4]])"
    by (simp add: neighbour_states_def seg_env_def make_env_def seg_ref_state_def
        gather_rows_def)
  have n: "n_atm_bands seg_env = 1" "scipy_inv seg_env = inv_exact"
    by (simp_all add: n_atm_bands_def seg_env_def make_env_def seg_ref_state_def)
  have f: "fit_bhat inv_exact (Mat 4 3 [[0, 0, 1], [1, 0, 1], [0, 1, 1], [1, 1, 1]])
             (Mat 4 1 [[1], [2], [3], [4]]) 1 = Inr (Mat 1 3 [[1, 1, 2]])"
    by (simp add: array_defs bind_err_def upt_rec numeral_nat Let_def)
  show ?thesis by (simp only: fit_pixel_def q xv yv n f bind_err_Inr neighbours.case)
qed




section \<open>Properties of the fit\<close>

subsection \<open>Singular normal matrices\<close>








subsection \<open>One band\<close>

lemma select_rows_length:
  "length use = length rs \<Longrightarrow> length (select_rows use rs) = length (filter id use)"
proof (induction use arbitrary: rs)
  case Nil then show ?case by (simp add: select_rows_def)
next
  case (Cons u use)
  then obtain r rs1 where "rs = r # rs1" by (cases rs) auto
  with Cons show ?case by (simp add: select_rows_def)
qed


lemma map2_append_replicate: "map2 (@) (replicate (length xs) [a]) xs = map ((#) a) xs"
  by (induction xs) simp_all


lemma band_X_ok:
  assumes "wf_mat xv" "length use = nrows xv"
  shows "band_X xv use = Inr (Mat (length (filter id use)) (1 + (ncols xv - 1))
           (map (\<lambda>r. 1 # butlast r) (select_rows use (rows xv))))"
proof -
  have len: "length (select_rows use (rows xv)) = length (filter id use)"
    using assms by (simp add: select_rows_length wf_mat_def)
  have "map2 (@) (replicate (length (filter id use)) [1]) (map butlast (select_rows use (rows xv)))
        = map ((#) 1) (map butlast (select_rows use (rows xv)))"
    using map2_append_replicate [of "map butlast (select_rows use (rows xv))" 1] len by simp
  with assms show ?thesis
    by (simp add: band_X_def mask_drop_last_def concatenate_axis1_def np_ones_def Let_def
        comp_def)
qed










subsection \<open>Shapes\<close>

lemma inv_exact_returns_arrays: "returns_arrays inv_exact"
  by (auto simp: returns_arrays_def inv_exact_def wf_mat_def list_all_iff split: if_splits)

lemma matmul_shape:
  "matmul A B = Inr C \<Longrightarrow>
     nrows C = nrows A \<and> ncols C = ncols B \<and> length (rows C) = length (rows A)"
  by (auto simp: matmul_def split: if_splits)

lemma assign_row_length:
  assumes "assign_row c v = Inr row" "length (rows v) = nrows v"
    "list_all (\<lambda>r. length r = ncols v) (rows v)"
  shows "length row = c"
proof -
  from assms(1) consider "nrows v = 1" "ncols v = c" "row = hd (rows v)"
    | "row = replicate c (hd (hd (rows v)))"
    by (auto simp: assign_row_def split: if_splits)
  then show ?thesis
  proof cases
    case 1
    with assms(2) obtain r where "rows v = [r]" by (cases "rows v") auto
    with 1 assms(3) show ?thesis by simp
  next
    case 2 then show ?thesis by simp
  qed
qed

lemma band_try_length:
  assumes ra: "returns_arrays linalg_inv" and t: "band_try linalg_inv c X W y = Inr row"
  shows "length row = c"
proof -
  from t obtain N Ni t1 t2 b where
    "linalg_inv N = Inr Ni" and m1: "matmul Ni (transpose_mat X) = Inr t1"
    and m2: "matmul t1 W = Inr t2" and m3: "matmul t2 y = Inr b"
    and a: "assign_row c (transpose_mat b) = Inr row"
    by (auto simp: band_try_def solve_band_def bind_err_Inr_iff)
  with ra have "wf_mat Ni" by (auto simp: returns_arrays_def)
  then have "length (rows Ni) = nrows Ni" by (simp add: wf_mat_def)
  with matmul_shape [OF m1] matmul_shape [OF m2] matmul_shape [OF m3]
  have lb: "length (rows b) = nrows b" by simp
  have l1: "length (rows (transpose_mat b)) = nrows (transpose_mat b)"
    by (simp add: transpose_mat_def)
  have l2: "list_all (\<lambda>r. length r = ncols (transpose_mat b)) (rows (transpose_mat b))"
    using lb by (simp add: transpose_mat_def list_all_iff)
  show ?thesis by (rule assign_row_length [OF a l1 l2])
qed

lemma fit_band_length:
  assumes "returns_arrays linalg_inv" "fit_band linalg_inv xv yv i = Inr row"
  shows "length row = ncols xv"
  using assms(2) unfolding fit_band_def Let_def bind_err_Inr_iff
proof (elim exE conjE)
  fix use X y
  assume r: "(case band_try linalg_inv (ncols xv) X (band_W use) y of
                Inl e \<Rightarrow> Inr (replicate (ncols xv) 0) | Inr row \<Rightarrow> Inr row) = Inr row"
  show ?thesis
  proof (cases "band_try linalg_inv (ncols xv) X (band_W use) y")
    case (Inl e) with r show ?thesis by auto
  next
    case (Inr row')
    with r have "row' = row" by simp
    with Inr band_try_length [OF assms(1)] show ?thesis by simp
  qed
qed

lemma fit_loop_shape:
  assumes "fit_loop linalg_inv xv yv idxs bhat = Inr rs"
    and "list_all (\<lambda>r. length r = c) bhat"
    and "\<And>i row. fit_band linalg_inv xv yv i = Inr row \<Longrightarrow> length row = c"
  shows "length rs = length bhat \<and> list_all (\<lambda>r. length r = c) rs"
  using assms(1,2)
proof (induction idxs arbitrary: bhat)
  case Nil then show ?case by simp
next
  case (Cons i idxs)
  then obtain row where f: "fit_band linalg_inv xv yv i = Inr row"
    and l: "fit_loop linalg_inv xv yv idxs (bhat[i := row]) = Inr rs"
    by (auto simp: bind_err_Inr_iff)
  have "list_all (\<lambda>r. length r = c) (bhat[i := row])"
    using Cons.prems(2) assms(3) [OF f]
    by (auto simp: list_all_iff dest!: set_update_subset_insert [THEN subsetD])
  from Cons.IH [OF l this] show ?case by simp
qed



lemma gather_rows_shape:
  assumes "gather_rows M ns = Inr G"
  shows "nrows G = length ns \<and> ncols G = ncols M \<and> (wf_mat M \<longrightarrow> wf_mat G)"
  using assms
  by (auto simp: gather_rows_def wf_mat_def list_all_iff all_set_conv_all_nth split: if_splits)

lemma scale_rows_shape:
  assumes "scale_rows M = Inr S"
  shows "nrows S = nrows M \<and> ncols S = 3 \<and> (wf_mat M \<longrightarrow> wf_mat S)"
  using assms
  by (auto simp: scale_rows_def wf_mat_def list_all_iff loc_scaling_def split: if_splits)

lemma neighbour_locations_shape:
  assumes "neighbour_locations e ns = Inr xv"
  shows "nrows xv = length ns \<and> ncols xv = 3 \<and> (wf_mat (reference_locations e) \<longrightarrow> wf_mat xv)"
proof -
  from assms obtain G where g: "gather_rows (reference_locations e) ns = Inr G"
    and s: "scale_rows G = Inr xv"
    by (auto simp: neighbour_locations_def bind_err_Inr_iff)
  from gather_rows_shape [OF g] scale_rows_shape [OF s] show ?thesis by simp
qed


lemma fit_bhat_shape:
  assumes ra: "returns_arrays linalg_inv" and f: "fit_bhat linalg_inv xv yv n = Inr bhat"
  shows "nrows bhat = n \<and> ncols bhat = ncols xv \<and> wf_mat bhat"
proof -
  from f obtain rs where
    l: "fit_loop linalg_inv xv yv [0..<n] (rows (np_zeros n (ncols xv))) = Inr rs"
    and b: "bhat = Mat n (ncols xv) rs"
    by (auto simp: fit_bhat_def bind_err_Inr_iff)
  have z: "list_all (\<lambda>r. length r = ncols xv) (rows (np_zeros n (ncols xv)))"
    by (simp add: np_zeros_def list_all_iff)
  from fit_loop_shape [OF l z fit_band_length [OF ra]]
  have "length rs = n" "list_all (\<lambda>r. length r = ncols xv) rs"
    by (simp_all add: np_zeros_def)
  with b show ?thesis by (simp add: wf_mat_def)
qed

text \<open>
  Claim C5, amended.  Every fitted model has one row per atmospheric band and three
  columns (intercept, latitude slope, longitude slope), and the design matrix of a band
  has, for every neighbour in use, the row \<open>1\<close> followed by the scaled location without
  its last entry, the elevation.
\<close>

theorem fitted_model_shape:
  assumes ra: "returns_arrays (scipy_inv e)" and fit: "fit_pixel e x = Inr bhat"
  shows "nrows bhat = n_atm_bands e \<and> ncols bhat = 3 \<and> wf_mat bhat
       \<and> (\<forall>xv use X. wf_mat xv \<and> length use = nrows xv \<and> band_X xv use = Inr X \<longrightarrow>
            X = Mat (length (filter id use)) (1 + (ncols xv - 1))
                  (map (\<lambda>r. 1 # butlast r) (select_rows use (rows xv))))"
proof -
  from fit obtain nn where q: "kdtree_query e x (nneighbors e) = Inr nn"
    and c: "(case nn of
         Many ns \<Rightarrow>
           bind_err (neighbour_locations e ns) (\<lambda>xv.
           bind_err (neighbour_states e ns) (\<lambda>yv.
             fit_bhat (scipy_inv e) xv yv (n_atm_bands e)))
       | One i \<Rightarrow>
           bind_err (neighbour_locations e [i]) (\<lambda>xv.
           bind_err (neighbour_states e [i]) (\<lambda>yv.
             if n_atm_bands e = 0 then Inr (np_zeros 0 (ncols xv)) else Inl IndexError))) = Inr bhat"
    unfolding fit_pixel_def bind_err_Inr_iff by blast
  have shape: "nrows bhat = n_atm_bands e \<and> ncols bhat = 3 \<and> wf_mat bhat"
  proof (cases nn)
    case (Many ns)
    with c obtain xv yv where xv: "neighbour_locations e ns = Inr xv"
      and f: "fit_bhat (scipy_inv e) xv yv (n_atm_bands e) = Inr bhat"
      by (auto simp: bind_err_Inr_iff)
    from fit_bhat_shape [OF ra f] neighbour_locations_shape [OF xv] show ?thesis by simp
  next
    case (One i)
    with c obtain xv where xv: "neighbour_locations e [i] = Inr xv"
      and b: "n_atm_bands e = 0" "bhat = np_zeros 0 (ncols xv)"
      by (auto simp: bind_err_Inr_iff split: if_splits)
    with neighbour_locations_shape [OF xv] show ?thesis
      by (simp add: np_zeros_def wf_mat_def)
  qed
  moreover have "\<forall>xv use X. wf_mat xv \<and> length use = nrows xv \<and> band_X xv use = Inr X \<longrightarrow>
            X = Mat (length (filter id use)) (1 + (ncols xv - 1))
                  (map (\<lambda>r. 1 # butlast r) (select_rows use (rows xv)))"
    using band_X_ok by auto
  ultimately show ?thesis by blast
qed

text \<open>
  Claim C5 as stated fails: the model fitted at the first pixel of the segmented example
  has one band and three columns, not two.
\<close>

theorem fitted_model_has_three_columns:
  "fit_pixel seg_env [0, 0, 1] = Inr (Mat 1 3 [[1, 1, 2]])
   \<and> n_atm_bands seg_env = 1 \<and> ncols (Mat 1 3 [[1, 1, 2]]) \<noteq> 2"
  using seg_env_fit by (simp add: n_atm_bands_def seg_env_def make_env_def seg_ref_state_def)

theorem fitted_model_shape_witness:
  "returns_arrays (scipy_inv seg_env)
   \<and> fit_pixel seg_env [0, 0, 1] = Inr (Mat 1 3 [[1, 1, 2]])
   \<and> nrows (Mat 1 3 [[1, 1, 2]]) = n_atm_bands seg_env
   \<and> wf_mat (Mat 1 3 [[1, 1, 2]])"
proof -
  have ra: "returns_arrays (scipy_inv seg_env)"
    using inv_exact_returns_arrays by (simp add: seg_env_def make_env_def)
  from fitted_model_shape [OF ra seg_env_fit]
  have "nrows (Mat 1 3 [[1, 1, 2]]) = n_atm_bands seg_env" "wf_mat (Mat 1 3 [[1, 1, 2]])"
    by blast+
  with ra seg_env_fit show ?thesis by blast
qed

section \<open>A failed band does not end the pixel\<close>













section \<open>Properties of the smoother\<close>

lemma reflect_index_less: "0 < n \<Longrightarrow> reflect_index n i < n"
proof -
  assume n: "0 < n"
  let ?m = "i mod (2 * int n)"
  have "0 \<le> ?m" "?m < 2 * int n" using n by simp_all
  then show ?thesis by (auto simp: reflect_index_def Let_def)
qed

lemma sum_list_zero: "(\<And>x. x \<in> set xs \<Longrightarrow> f x = (0::real)) \<Longrightarrow> (\<Sum>x\<leftarrow>xs. f x) = 0"
  by (induction xs) simp_all

lemma correlate1d_zero: "correlate1d w (replicate n 0) = replicate n 0"
proof (rule nth_equalityI)
  show "length (correlate1d w (replicate n 0)) = length (replicate n (0::real))"
    by (simp add: correlate1d_def)
next
  fix i assume "i < length (correlate1d w (replicate n 0))"
  then have i: "i < n" by (simp add: correlate1d_def)
  then have "0 < n" by simp
  then have "\<And>k. replicate n (0::real) ! reflect_index n (int i + int k - int (length w div 2)) = 0"
    by (simp add: reflect_index_less)
  then have "(\<Sum>k\<leftarrow>[0..<length w]. w ! k *
               replicate n 0 ! reflect_index n (int i + int k - int (length w div 2))) = 0"
    by (intro sum_list_zero) simp
  with i show "correlate1d w (replicate n 0) ! i = replicate n 0 ! i"
    by (simp add: correlate1d_def)
qed

lemma transpose_zeros: "transpose_mat (np_zeros r c) = np_zeros c r"
  by (auto simp: transpose_mat_def np_zeros_def intro!: nth_equalityI)

lemma map_rows_zeros: "map_rows (correlate1d w) (np_zeros r c) = np_zeros r c"
  by (simp add: map_rows_def np_zeros_def correlate1d_zero)

lemma gaussian_filter_zeros: "gaussian_filter sigma (np_zeros r c) = np_zeros r c"
  by (simp add: gaussian_filter_def Let_def transpose_zeros map_rows_zeros)

lemma map2_const:
  "length xs = length ys \<Longrightarrow> (\<And>x y. (x, y) \<in> set (zip xs ys) \<Longrightarrow> f x y = c)
   \<Longrightarrow> map2 f xs ys = replicate (length xs) c"
  by (induction xs ys rule: list_induct2) simp_all

lemma all_nodata_rows:
  assumes "wf_mat band" "list_all (list_all (\<lambda>v. v = - 9999)) (rows band)"
  shows "rows band = replicate (nrows band) (replicate (ncols band) (- 9999))"
proof (rule nth_equalityI)
  show "length (rows band) = length (replicate (nrows band) (replicate (ncols band) (- 9999::real)))"
    using assms by (simp add: wf_mat_def)
next
  fix i assume i: "i < length (rows band)"
  then have r: "rows band ! i \<in> set (rows band)" by simp
  with assms have "length (rows band ! i) = ncols band" "\<forall>v\<in>set (rows band ! i). v = - 9999"
    by (auto simp: wf_mat_def list_all_iff)
  then have "rows band ! i = replicate (ncols band) (- 9999)"
    by (metis replicate_eqI)
  with i assms show "rows band ! i = replicate (nrows band) (replicate (ncols band) (- 9999)) ! i"
    by (simp add: wf_mat_def)
qed

lemma map2_replicate: "map2 f (replicate n a) (replicate n b) = replicate n (f a b)"
  by (induction n) simp_all

lemma zeroed_all_nodata:
  assumes "wf_mat band" "list_all (list_all (\<lambda>v. v = - 9999)) (rows band)"
  shows "zeroed_values nodata band = np_zeros (nrows band) (ncols band)"
  by (simp add: zeroed_values_def null_mask_def all_nodata_rows [OF assms] map2_replicate
      np_zeros_def)

lemma mask_all_nodata:
  assumes "wf_mat band" "list_all (list_all (\<lambda>v. v = - 9999)) (rows band)"
  shows "validity_mask nodata band = np_zeros (nrows band) (ncols band)"
  by (simp add: validity_mask_def zeroed_all_nodata [OF assms] null_mask_def
      all_nodata_rows [OF assms] map2_replicate np_zeros_def)

lemma smooth_band_all_nodata:
  assumes "wf_mat band" "list_all (list_all (\<lambda>v. v = - 9999)) (rows band)"
  shows "smooth_band nodata sigma band
         = replicate (nrows band) (replicate (ncols band) NaN)"
proof -
  have VV: "gaussian_filter sigma (zeroed_values nodata band) = np_zeros (nrows band) (ncols band)"
    by (simp only: zeroed_all_nodata [OF assms] gaussian_filter_zeros)
  have WW: "gaussian_filter sigma (validity_mask nodata band) = np_zeros (nrows band) (ncols band)"
    by (simp only: mask_all_nodata [OF assms] gaussian_filter_zeros)
  show ?thesis
    unfolding smooth_band_def Let_def VV WW
    by (simp add: np_zeros_def map2_replicate np_divide_def)
qed

text \<open>
  Claim C2, amended.  When the smoother runs (a positive width), a band all of whose
  pixels hold \<open>-9999\<close> has zero values and zero weights everywhere; both blurred arrays
  are zero, the division is \<open>0 / 0\<close> at every pixel, and the band becomes NaN throughout:
  nothing guards the division.
\<close>

theorem all_nodata_band_becomes_nan:
  assumes "0 < sigma" and "n < length bands" and "wf_mat (bands ! n)"
    and "list_all (list_all (\<lambda>v. v = - 9999)) (rows (bands ! n))"
  shows "smoother nodata sigma bands ! n
         = replicate (nrows (bands ! n)) (replicate (ncols (bands ! n)) NaN)"
  using assms by (simp add: smoother_def smooth_band_all_nodata)

text \<open>
  Claim C2 as stated fails: a band of one nodata pixel is NaN after the smoother, not
  nodata.
\<close>

theorem all_nodata_band_not_left_nodata:
  "smoother (- 9999) 2 [Mat 1 1 [[- 9999]]] = [[[NaN]]]
   \<and> smoother (- 9999) 2 [Mat 1 1 [[- 9999]]] \<noteq> [[[Fin (- 9999)]]]"
proof -
  have "wf_mat (Mat 1 1 [[- 9999]])" "list_all (list_all (\<lambda>v. v = - 9999)) (rows (Mat 1 1 [[- 9999]]))"
    by (simp_all add: wf_mat_def)
  from smooth_band_all_nodata [OF this, of "- 9999" 2] show ?thesis
    by (simp add: smoother_def)
qed

theorem all_nodata_band_becomes_nan_witness:
  "(0::real) < 2 \<and> (1::nat) < length [Mat 1 2 [[1, 2]], Mat 2 2 [[- 9999, - 9999], [- 9999, - 9999]]]
   \<and> wf_mat (Mat 2 2 [[- 9999, - 9999], [- 9999, - 9999]])
   \<and> smoother (- 9999) 2 [Mat 1 2 [[1, 2]], Mat 2 2 [[- 9999, - 9999], [- 9999, - 9999]]] ! 1
       = [[NaN, NaN], [NaN, NaN]]"
  using all_nodata_band_becomes_nan [of 2 1
      "[Mat 1 2 [[1, 2]], Mat 2 2 [[- 9999, - 9999], [- 9999, - 9999]]]" "- 9999"]
  by (simp add: wf_mat_def numeral_2_eq_2)

end
